theory Spec2Isabelle
  imports Complex_Main "HOL-Library.Option_ord" "HOL-Library.Product_Lexorder"
begin

section \<open>Python values\<close>

text \<open>
  The server reads one JSON document per line with \<^verbatim>\<open>json.loads\<close> and works on the
  decoded Python value. \<open>pyval\<close> is that value: \<^verbatim>\<open>None\<close>, \<^verbatim>\<open>bool\<close>, \<^verbatim>\<open>int\<close>
  (unbounded), \<^verbatim>\<open>float\<close> (idealised as a real number), \<^verbatim>\<open>str\<close>, \<^verbatim>\<open>list\<close> and
  \<^verbatim>\<open>dict\<close> with string keys (an association list; a lookup takes the first binding
  of a key).
\<close>

datatype pyval =
    PNone
  | PBool bool
  | PInt int
  | PFloat real
  | PStr string
  | PList "pyval list"
  | PDict "(string \<times> pyval) list"

text \<open>\<^verbatim>\<open>d.get(k)\<close> and \<^verbatim>\<open>d.get(k, default)\<close> on a dict.\<close>

definition dict_get_default :: "(string \<times> pyval) list \<Rightarrow> string \<Rightarrow> pyval \<Rightarrow> pyval" where
  "dict_get_default d k dflt = (case map_of d k of None \<Rightarrow> dflt | Some v \<Rightarrow> v)"

definition dict_get :: "(string \<times> pyval) list \<Rightarrow> string \<Rightarrow> pyval" where
  "dict_get d k = dict_get_default d k PNone"

text \<open>Truth value of a Python object, as tested by \<^verbatim>\<open>if x:\<close>.\<close>

fun truthy :: "pyval \<Rightarrow> bool" where
  "truthy PNone = False"
| "truthy (PBool b) = b"
| "truthy (PInt i) = (i \<noteq> 0)"
| "truthy (PFloat x) = (x \<noteq> 0)"
| "truthy (PStr s) = (s \<noteq> [])"
| "truthy (PList xs) = (xs \<noteq> [])"
| "truthy (PDict d) = (d \<noteq> [])"

text \<open>\<^verbatim>\<open>hash(x)\<close> raises \<^verbatim>\<open>TypeError\<close> exactly on lists and dicts.\<close>

fun hashable :: "pyval \<Rightarrow> bool" where
  "hashable (PList xs) = False"
| "hashable (PDict d) = False"
| "hashable v = True"

text \<open>
  Exceptions. \<open>AttributeError v\<close> is raised by \<^verbatim>\<open>v.get(...)\<close> when \<open>v\<close> is not a dict,
  \<open>TypeError v\<close> by hashing the unhashable \<open>v\<close>, \<open>KeyError k\<close> by \<^verbatim>\<open>r[k]\<close> on a row
  without column \<open>k\<close>. \<open>Sqlite3Error m\<close> is any \<^verbatim>\<open>sqlite3.Error\<close> with text \<open>m\<close>;
  \<open>OtherError m\<close> is any other \<^verbatim>\<open>Exception\<close> the database module lets through.
\<close>

datatype exn =
    AttributeError pyval
  | TypeError pyval
  | KeyError string
  | Sqlite3Error string
  | OtherError string

definition bind_exn :: "exn + 'a \<Rightarrow> ('a \<Rightarrow> exn + 'b) \<Rightarrow> exn + 'b" where
  "bind_exn m f = (case m of Inl e \<Rightarrow> Inl e | Inr x \<Rightarrow> f x)"

section \<open>The relational store\<close>

text \<open>
  A value read from SQLite: \<^verbatim>\<open>NULL\<close>, \<^verbatim>\<open>INTEGER\<close> (taken as unbounded), \<^verbatim>\<open>REAL\<close>
  (idealised as a real number) or \<^verbatim>\<open>TEXT\<close>; \<^verbatim>\<open>BLOB\<close> values are left out. A row is
  what \<^verbatim>\<open>dict(row)\<close> gives: column names with values.
\<close>

datatype cell = CNull | CInt int | CReal real | CText string

type_synonym row = "(string \<times> cell) list"

definition int_cell :: "int option \<Rightarrow> cell" where
  "int_cell v = (case v of None \<Rightarrow> CNull | Some i \<Rightarrow> CInt i)"

definition real_cell :: "real option \<Rightarrow> cell" where
  "real_cell v = (case v of None \<Rightarrow> CNull | Some x \<Rightarrow> CReal x)"

definition text_cell :: "string option \<Rightarrow> cell" where
  "text_cell v = (case v of None \<Rightarrow> CNull | Some s \<Rightarrow> CText s)"

text \<open>
  The columns of \<^verbatim>\<open>deliveries\<close> and \<^verbatim>\<open>matches\<close> that the queries of
  \<^verbatim>\<open>handle_get_ball_by_ball\<close> and \<^verbatim>\<open>handle_get_player_performance\<close> name, with the
  storage class the server's arithmetic and ordering presuppose (the table definitions
  themselves are the ingestion side's); \<open>d_rest\<close> holds the remaining columns that
  \<^verbatim>\<open>SELECT d.*\<close> returns.
\<close>

record delivery =
  d_id :: "int option"
  d_match_id :: "string option"
  d_innings :: "int option"
  d_over :: "int option"
  d_ball :: "int option"
  d_batter :: "string option"
  d_bowler :: "string option"
  d_runs_batter :: "int option"
  d_runs_total :: "int option"
  d_wicket_type :: "string option"
  d_rest :: row

record match =
  m_id :: "string option"
  m_team1 :: "string option"
  m_team2 :: "string option"

text \<open>
  A positional parameter bound to a \<^verbatim>\<open>?\<close>: \<open>Plain v\<close> is the value \<open>v\<close> itself,
  \<open>Wild v\<close> is the string \<^verbatim>\<open>f"%{v}%"\<close>.
\<close>

datatype param = Plain pyval | Wild pyval

text \<open>
  The SQL texts the handlers execute. Where the text is assembled from a list of
  conditions (\<^verbatim>\<open>"WHERE " + " AND ".join(conditions)\<close>, or no clause at all for the
  empty list in the handlers that allow it), the query carries that list.
\<close>

datatype query =
    TeamsByName
  | TeamsAll
  | Players "string list"
  | Matches "string list"
  | Deliveries "string list"
  | MatchById
  | Batting "string list"
  | Bowling "string list"
  | Officials "string list"
  | Venues "string list"

text \<open>
  The store behind \<^verbatim>\<open>execute_query\<close>: the two tables above; \<open>sat c p d\<close>, whether
  delivery \<open>d\<close> satisfies the condition text \<open>c\<close> with \<open>p\<close> bound to its \<^verbatim>\<open>?\<close>
  (SQLite's comparison and \<^verbatim>\<open>LIKE\<close>, left to the engine); \<open>other\<close>, the rows the engine
  returns for the queries whose bodies are not interpreted here; and \<open>fault\<close>, the
  exception, if any, that connecting or executing raises for a query.
\<close>

record store =
  deliveries :: "delivery list"
  matches :: "match list"
  sat :: "string \<Rightarrow> param \<Rightarrow> delivery \<Rightarrow> bool"
  other :: "query \<Rightarrow> param list \<Rightarrow> row list"
  fault :: "query \<Rightarrow> param list \<Rightarrow> exn option"

subsection \<open>The interpreted queries\<close>

text \<open>A conjunction of conditions, each with its positional parameter.\<close>

definition where_holds :: "store \<Rightarrow> string list \<Rightarrow> param list \<Rightarrow> delivery \<Rightarrow> bool" where
  "where_holds db conds ps d = list_all (\<lambda>(c, p). sat db c p d) (zip conds ps)"

text \<open>\<^verbatim>\<open>FROM deliveries d JOIN matches m ON m.id = d.match_id\<close>\<close>

definition join_matches :: "store \<Rightarrow> (delivery \<times> match) list" where
  "join_matches db =
     concat (map (\<lambda>d. map (Pair d)
                   (filter (\<lambda>m. d_match_id d \<noteq> None \<and> m_id m = d_match_id d) (matches db)))
                 (deliveries db))"

definition delivery_row :: "delivery \<Rightarrow> row" where
  "delivery_row d =
     [(''id'', int_cell (d_id d)),
      (''match_id'', text_cell (d_match_id d)),
      (''innings'', int_cell (d_innings d)),
      (''over'', int_cell (d_over d)),
      (''ball'', int_cell (d_ball d)),
      (''batter'', text_cell (d_batter d)),
      (''bowler'', text_cell (d_bowler d)),
      (''runs_batter'', int_cell (d_runs_batter d)),
      (''runs_total'', int_cell (d_runs_total d)),
      (''wicket_type'', text_cell (d_wicket_type d))] @ d_rest d"

text \<open>\<^verbatim>\<open>SELECT d.*, m.team1, m.team2\<close>\<close>

definition ball_row :: "delivery \<times> match \<Rightarrow> row" where
  "ball_row dm = delivery_row (fst dm) @
     [(''team1'', text_cell (m_team1 (snd dm))), (''team2'', text_cell (m_team2 (snd dm)))]"

text \<open>
  \<^verbatim>\<open>ORDER BY d.innings, d.over, d.ball\<close>: ascending, \<^verbatim>\<open>NULL\<close> first. Rows with equal
  keys, whose order SQL leaves open, stay in table order.
\<close>

definition order_key :: "delivery \<Rightarrow> int option \<times> int option \<times> int option" where
  "order_key d = (d_innings d, d_over d, d_ball d)"

definition select_deliveries :: "store \<Rightarrow> string list \<Rightarrow> param list \<Rightarrow> row list" where
  "select_deliveries db conds ps =
     map ball_row
       (sort_key (\<lambda>dm. order_key (fst dm))
          (filter (\<lambda>dm. where_holds db conds ps (fst dm)) (join_matches db)))"

text \<open>SQL aggregates and arithmetic on nullable values.\<close>

definition sql_count :: "'a option list \<Rightarrow> int" where
  "sql_count vs = int (length (filter (\<lambda>v. v \<noteq> None) vs))"

definition sql_count_distinct :: "'a option list \<Rightarrow> int" where
  "sql_count_distinct vs = int (length (remdups (filter (\<lambda>v. v \<noteq> None) vs)))"

definition sql_sum :: "int option list \<Rightarrow> int option" where
  "sql_sum vs = (if filter (\<lambda>v. v \<noteq> None) vs = [] then None
                 else Some (sum_list (map (\<lambda>v. case v of None \<Rightarrow> 0 | Some i \<Rightarrow> i) vs)))"

definition sql_cast_float :: "int option \<Rightarrow> real option" where
  "sql_cast_float v = map_option real_of_int v"

text \<open>Division: \<^verbatim>\<open>NULL\<close> for a \<^verbatim>\<open>NULL\<close> operand and for a zero divisor.\<close>

definition sql_div :: "real option \<Rightarrow> int \<Rightarrow> real option" where
  "sql_div x n = (case x of None \<Rightarrow> None
                  | Some a \<Rightarrow> if n = 0 then None else Some (a / real_of_int n))"

definition sql_mul :: "real option \<Rightarrow> int \<Rightarrow> real option" where
  "sql_mul x n = map_option (\<lambda>a. a * real_of_int n) x"

text \<open>\<^verbatim>\<open>ROUND(x, 2)\<close>, half away from zero.\<close>

definition sql_round2 :: "real option \<Rightarrow> real option" where
  "sql_round2 x = map_option (\<lambda>a. if 0 \<le> a then real_of_int \<lfloor>a * 100 + 1 / 2\<rfloor> / 100
                                   else - real_of_int \<lfloor>- a * 100 + 1 / 2\<rfloor> / 100) x"

text \<open>\<^verbatim>\<open>COUNT(CASE WHEN c THEN 1 END)\<close>\<close>

definition count_when :: "('a \<Rightarrow> bool) \<Rightarrow> 'a list \<Rightarrow> int" where
  "count_when P xs = int (length (filter P xs))"

definition batting_row :: "delivery list \<Rightarrow> row" where
  "batting_row ds =
     [(''balls_faced'', CInt (sql_count (map d_id ds))),
      (''runs_scored'', int_cell (sql_sum (map d_runs_batter ds))),
      (''fours'', CInt (count_when (\<lambda>d. d_runs_batter d = Some 4) ds)),
      (''sixes'', CInt (count_when (\<lambda>d. d_runs_batter d = Some 6) ds)),
      (''boundaries'', CInt (count_when (\<lambda>d. case d_runs_batter d of None \<Rightarrow> False | Some r \<Rightarrow> 4 \<le> r) ds)),
      (''strike_rate'', real_cell (sql_round2 (sql_mul
          (sql_div (sql_cast_float (sql_sum (map d_runs_batter ds))) (sql_count (map d_id ds))) 100))),
      (''matches_played'', CInt (sql_count_distinct (map d_match_id ds)))]"

definition bowling_row :: "delivery list \<Rightarrow> row" where
  "bowling_row ds =
     [(''balls_bowled'', CInt (sql_count (map d_id ds))),
      (''runs_conceded'', int_cell (sql_sum (map d_runs_total ds))),
      (''wickets'', CInt (count_when (\<lambda>d. case d_wicket_type d of None \<Rightarrow> False | Some w \<Rightarrow> w \<noteq> []) ds)),
      (''economy_rate'', real_cell (sql_round2 (sql_mul
          (sql_div (sql_cast_float (sql_sum (map d_runs_total ds))) (sql_count (map d_id ds))) 6))),
      (''matches_bowled'', CInt (sql_count_distinct (map d_match_id ds)))]"

text \<open>What the engine returns when nothing is raised.\<close>

fun run_sql :: "store \<Rightarrow> query \<Rightarrow> param list \<Rightarrow> row list" where
  "run_sql db (Deliveries conds) ps = select_deliveries db conds ps"
| "run_sql db (Batting conds) ps = [batting_row (filter (where_holds db conds ps) (deliveries db))]"
| "run_sql db (Bowling conds) ps = [bowling_row (filter (where_holds db conds ps) (deliveries db))]"
| "run_sql db q ps = other db q ps"

text \<open>
  \<^verbatim>\<open>execute_query\<close>: a \<^verbatim>\<open>sqlite3.Error\<close> is caught (and reported on standard error, which
  is not part of any response) and the query then has no rows; any other exception
  propagates to the caller.
\<close>

definition execute_query :: "store \<Rightarrow> query \<Rightarrow> param list \<Rightarrow> exn + row list" where
  "execute_query db q ps =
     (case fault db q ps of
        None \<Rightarrow> Inr (run_sql db q ps)
      | Some (Sqlite3Error m) \<Rightarrow> Inr []
      | Some e \<Rightarrow> Inl e)"

section \<open>The tool registry\<close>

text \<open>
  A tool as \<^verbatim>\<open>get_tools\<close> describes it. Its \<^verbatim>\<open>inputSchema\<close> is an object schema:
  the properties in order, each with its type, its description and, where given, its
  enumeration and default; the list of required keys (empty where the source gives
  none); and \<^verbatim>\<open>additionalProperties\<close>.
\<close>

record property =
  p_type :: string
  p_description :: string
  p_enum :: "string list option"
  p_default :: "string option"

record tool =
  t_name :: string
  t_description :: string
  t_properties :: "(string \<times> property) list"
  t_required :: "string list"
  t_additionalProperties :: bool

definition mk_property :: "string \<Rightarrow> string \<Rightarrow> property" where
  "mk_property ty descr = \<lparr>p_type = ty, p_description = descr, p_enum = None, p_default = None\<rparr>"

definition get_tools :: "tool list" where
  "get_tools =
    [\<lparr>t_name = ''get_team_info'',
      t_description = ''Get information about IPL teams'',
      t_properties = [(''team_name'', mk_property ''string'' ''Name or short name of the team'')],
      t_required = [], t_additionalProperties = False\<rparr>,
     \<lparr>t_name = ''get_player_info'',
      t_description = ''Get player information and team details'',
      t_properties = [(''player_name'', mk_property ''string'' ''Name of the player''),
                      (''team_name'', mk_property ''string'' ''Filter by team name'')],
      t_required = [], t_additionalProperties = False\<rparr>,
     \<lparr>t_name = ''get_match_details'',
      t_description = ''Get detailed match information including scores and outcome'',
      t_properties = [(''match_id'', mk_property ''string'' ''Specific match ID''),
                      (''season'', mk_property ''integer'' ''IPL season year''),
                      (''team_name'', mk_property ''string'' ''Filter by team name''),
                      (''venue'', mk_property ''string'' ''Filter by venue'')],
      t_required = [], t_additionalProperties = False\<rparr>,
     \<lparr>t_name = ''get_ball_by_ball'',
      t_description = ''Get ball-by-ball commentary and deliveries for a match'',
      t_properties = [(''match_id'', mk_property ''string'' ''Match ID''),
                      (''innings'', mk_property ''integer'' ''Innings number (1 or 2)''),
                      (''over_start'', mk_property ''integer'' ''Starting over number''),
                      (''over_end'', mk_property ''integer'' ''Ending over number'')],
      t_required = [''match_id''], t_additionalProperties = False\<rparr>,
     \<lparr>t_name = ''get_player_performance'',
      t_description = ''Get player performance in specific match or overall'',
      t_properties = [(''player_name'', mk_property ''string'' ''Player name''),
                      (''match_id'', mk_property ''string'' ''Specific match ID''),
                      (''stat_type'', \<lparr>p_type = ''string'', p_description = ''Type of stats'',
                                        p_enum = Some [''batting'', ''bowling'', ''fielding'', ''all''],
                                        p_default = Some ''all''\<rparr>)],
      t_required = [''player_name''], t_additionalProperties = False\<rparr>,
     \<lparr>t_name = ''get_match_officials'',
      t_description = ''Get match officials information'',
      t_properties = [(''match_id'', mk_property ''string'' ''Match ID''),
                      (''official_name'', mk_property ''string'' ''Official name'')],
      t_required = [], t_additionalProperties = False\<rparr>,
     \<lparr>t_name = ''get_venue_info'',
      t_description = ''Get information about cricket venues'',
      t_properties = [(''venue_name'', mk_property ''string'' ''Name of the venue''),
                      (''city'', mk_property ''string'' ''Filter by city'')],
      t_required = [], t_additionalProperties = False\<rparr>]"

text \<open>The property set and the required keys that \<^verbatim>\<open>inputSchema\<close> declares for a tool name.\<close>

definition find_tool :: "string \<Rightarrow> tool option" where
  "find_tool n = find (\<lambda>t. t_name t = n) get_tools"

definition declared_keys :: "string \<Rightarrow> string list" where
  "declared_keys n = (case find_tool n of None \<Rightarrow> [] | Some t \<Rightarrow> map fst (t_properties t))"

definition required_keys :: "string \<Rightarrow> string list" where
  "required_keys n = (case find_tool n of None \<Rightarrow> [] | Some t \<Rightarrow> t_required t)"

section \<open>The handlers\<close>

text \<open>
  What a handler returns. \<open>Listing k rows c n\<close> is the dict \<^verbatim>\<open>{k: rows, c: n}\<close> of the
  five listing handlers; \<open>BallByBall match_info deliveries total_deliveries overs_covered\<close>
  and \<open>Performance player_name match_id stat_type performance\<close> are the dicts of the other
  two, field by field. A performance block is a row, or the empty dict \<open>[]\<close>.
\<close>

datatype tool_result =
    Listing string "row list" string nat
  | BallByBall "row option" "row list" nat nat
  | Performance pyval pyval pyval "(string \<times> row) list"

text \<open>\<^verbatim>\<open>arguments.get\<close> exists only on a dict.\<close>

definition py_dict :: "pyval \<Rightarrow> exn + (string \<times> pyval) list" where
  "py_dict v = (case v of PDict d \<Rightarrow> Inr d | _ \<Rightarrow> Inl (AttributeError v))"

text \<open>
  \<^verbatim>\<open>if present: conditions.append(c); params.append(...)\<close>, on the pair of the two
  lists.
\<close>

definition add_filter ::
  "bool \<Rightarrow> string \<Rightarrow> param list \<Rightarrow> string list \<times> param list \<Rightarrow> string list \<times> param list" where
  "add_filter present c ps cp = (if present then (fst cp @ [c], snd cp @ ps) else cp)"

definition listing :: "string \<Rightarrow> string \<Rightarrow> row list \<Rightarrow> exn + tool_result" where
  "listing k c results = Inr (Listing k results c (length results))"

definition handle_get_team_info :: "store \<Rightarrow> pyval \<Rightarrow> exn + tool_result" where
  "handle_get_team_info db arguments =
     bind_exn (py_dict arguments) (\<lambda>a.
       let team_name = dict_get a ''team_name'' in
       bind_exn (if truthy team_name
                 then execute_query db TeamsByName [Wild team_name, Wild team_name]
                 else execute_query db TeamsAll [])
         (listing ''teams'' ''total_teams''))"

definition handle_get_player_info :: "store \<Rightarrow> pyval \<Rightarrow> exn + tool_result" where
  "handle_get_player_info db arguments =
     bind_exn (py_dict arguments) (\<lambda>a.
       let player_name = dict_get a ''player_name'';
           team_name = dict_get a ''team_name'';
           cp0 = ([], []);
           cp1 = add_filter (truthy player_name) ''p.name LIKE ?'' [Wild player_name] cp0;
           cp2 = add_filter (truthy team_name) ''p.team LIKE ?'' [Wild team_name] cp1
       in bind_exn (execute_query db (Players (fst cp2)) (snd cp2))
            (listing ''players'' ''total_players''))"

definition handle_get_match_details :: "store \<Rightarrow> pyval \<Rightarrow> exn + tool_result" where
  "handle_get_match_details db arguments =
     bind_exn (py_dict arguments) (\<lambda>a.
       let match_id = dict_get a ''match_id'';
           season = dict_get a ''season'';
           team_name = dict_get a ''team_name'';
           venue = dict_get a ''venue'';
           cp0 = ([], []);
           cp1 = add_filter (truthy match_id) ''m.id = ?'' [Plain match_id] cp0;
           cp2 = add_filter (truthy season) ''m.season = ?'' [Plain season] cp1;
           cp3 = add_filter (truthy team_name) ''(m.team1 LIKE ? OR m.team2 LIKE ?)''
                   [Wild team_name, Wild team_name] cp2;
           cp4 = add_filter (truthy venue) ''m.venue LIKE ?'' [Wild venue] cp3
       in bind_exn (execute_query db (Matches (fst cp4)) (snd cp4))
            (listing ''matches'' ''total_matches''))"

text \<open>\<^verbatim>\<open>r[k]\<close> on a row.\<close>

definition getitem :: "row \<Rightarrow> string \<Rightarrow> exn + cell" where
  "getitem r k = (case map_of r k of None \<Rightarrow> Inl (KeyError k) | Some v \<Rightarrow> Inr v)"

text \<open>The generator \<^verbatim>\<open>(r['innings'], r['over']) for r in results\<close>.\<close>

fun innings_over :: "row list \<Rightarrow> exn + (cell \<times> cell) list" where
  "innings_over [] = Inr []"
| "innings_over (r # rs) =
     bind_exn (getitem r ''innings'') (\<lambda>i.
     bind_exn (getitem r ''over'') (\<lambda>ov.
     bind_exn (innings_over rs) (\<lambda>ps. Inr ((i, ov) # ps))))"

text \<open>
  Python compares an \<^verbatim>\<open>int\<close> and a \<^verbatim>\<open>float\<close> of the same value as equal, in a set as
  elsewhere: \<open>py_key\<close> picks one representative.
\<close>

definition py_key :: "cell \<Rightarrow> cell" where
  "py_key c = (case c of CReal x \<Rightarrow> if x = real_of_int \<lfloor>x\<rfloor> then CInt \<lfloor>x\<rfloor> else CReal x | _ \<Rightarrow> c)"

definition pair_key :: "cell \<times> cell \<Rightarrow> cell \<times> cell" where
  "pair_key p = (py_key (fst p), py_key (snd p))"

text \<open>\<^verbatim>\<open>len(set(...))\<close>\<close>

definition overs_covered :: "row list \<Rightarrow> exn + nat" where
  "overs_covered results =
     bind_exn (innings_over results) (\<lambda>ps. Inr (length (remdups (map pair_key ps))))"

text \<open>\<^verbatim>\<open>rows[0] if rows else None\<close> and \<^verbatim>\<open>rows[0] if rows else {}\<close>\<close>

definition first_or_none :: "row list \<Rightarrow> row option" where
  "first_or_none rows = (case rows of [] \<Rightarrow> None | r # _ \<Rightarrow> Some r)"

definition first_or_empty :: "row list \<Rightarrow> row" where
  "first_or_empty rows = (case rows of [] \<Rightarrow> [] | r # _ \<Rightarrow> r)"

text \<open>The conditions and parameters that \<^verbatim>\<open>handle_get_ball_by_ball\<close> assembles.\<close>

definition ball_by_ball_filters :: "(string \<times> pyval) list \<Rightarrow> string list \<times> param list" where
  "ball_by_ball_filters a =
     (let match_id = dict_get a ''match_id'';
          innings = dict_get a ''innings'';
          over_start = dict_get a ''over_start'';
          over_end = dict_get a ''over_end'';
          cp0 = ([''d.match_id = ?''], [Plain match_id]);
          cp1 = add_filter (truthy innings) ''d.innings = ?'' [Plain innings] cp0;
          cp2 = add_filter (over_start \<noteq> PNone) ''d.over >= ?'' [Plain over_start] cp1;
          cp3 = add_filter (over_end \<noteq> PNone) ''d.over <= ?'' [Plain over_end] cp2
      in cp3)"

definition handle_get_ball_by_ball :: "store \<Rightarrow> pyval \<Rightarrow> exn + tool_result" where
  "handle_get_ball_by_ball db arguments =
     bind_exn (py_dict arguments) (\<lambda>a.
       let match_id = dict_get a ''match_id'';
           cp = ball_by_ball_filters a
       in bind_exn (execute_query db (Deliveries (fst cp)) (snd cp)) (\<lambda>results.
          bind_exn (execute_query db MatchById [Plain match_id]) (\<lambda>match_info.
          bind_exn (overs_covered results) (\<lambda>oc.
            Inr (BallByBall (first_or_none match_info) results (length results) oc)))))"

text \<open>\<^verbatim>\<open>stat_type in [...]\<close>: equality with one of the listed strings.\<close>

definition py_in :: "pyval \<Rightarrow> string list \<Rightarrow> bool" where
  "py_in v xs = (case v of PStr s \<Rightarrow> s \<in> set xs | _ \<Rightarrow> False)"

text \<open>The conditions and parameters of the batting block and of the bowling block.\<close>

definition batting_filters :: "(string \<times> pyval) list \<Rightarrow> string list \<times> param list" where
  "batting_filters a =
     (let player_name = dict_get a ''player_name'';
          match_id = dict_get a ''match_id'';
          cp0 = ([''d.batter LIKE ?''], [Wild player_name]);
          cp1 = add_filter (truthy match_id) ''d.match_id = ?'' [Plain match_id] cp0
      in cp1)"

definition bowling_filters :: "(string \<times> pyval) list \<Rightarrow> string list \<times> param list" where
  "bowling_filters a =
     (let player_name = dict_get a ''player_name'';
          match_id = dict_get a ''match_id'';
          cp0 = ([''d.bowler LIKE ?''], [Wild player_name]);
          cp1 = add_filter (truthy match_id) ''d.match_id = ?'' [Plain match_id] cp0
      in cp1)"

definition handle_get_player_performance :: "store \<Rightarrow> pyval \<Rightarrow> exn + tool_result" where
  "handle_get_player_performance db arguments =
     bind_exn (py_dict arguments) (\<lambda>a.
       let player_name = dict_get a ''player_name'';
           match_id = dict_get a ''match_id'';
           stat_type = dict_get_default a ''stat_type'' (PStr ''all'');
           performance0 = []
       in bind_exn
            (if py_in stat_type [''batting'', ''all'']
             then (let cp = batting_filters a
                   in bind_exn (execute_query db (Batting (fst cp)) (snd cp)) (\<lambda>batting_results.
                        Inr (performance0 @ [(''batting'', first_or_empty batting_results)])))
             else Inr performance0) (\<lambda>performance1.
          bind_exn
            (if py_in stat_type [''bowling'', ''all'']
             then (let cp = bowling_filters a
                   in bind_exn (execute_query db (Bowling (fst cp)) (snd cp)) (\<lambda>bowling_results.
                        Inr (performance1 @ [(''bowling'', first_or_empty bowling_results)])))
             else Inr performance1) (\<lambda>performance2.
            Inr (Performance player_name match_id stat_type performance2))))"

definition handle_get_match_officials :: "store \<Rightarrow> pyval \<Rightarrow> exn + tool_result" where
  "handle_get_match_officials db arguments =
     bind_exn (py_dict arguments) (\<lambda>a.
       let match_id = dict_get a ''match_id'';
           official_name = dict_get a ''official_name'';
           cp0 = ([], []);
           cp1 = add_filter (truthy match_id) ''o.match_id = ?'' [Plain match_id] cp0;
           cp2 = add_filter (truthy official_name) ''o.name LIKE ?'' [Wild official_name] cp1
       in bind_exn (execute_query db (Officials (fst cp2)) (snd cp2))
            (listing ''officials'' ''total_officials''))"

definition handle_get_venue_info :: "store \<Rightarrow> pyval \<Rightarrow> exn + tool_result" where
  "handle_get_venue_info db arguments =
     bind_exn (py_dict arguments) (\<lambda>a.
       let venue_name = dict_get a ''venue_name'';
           city = dict_get a ''city'';
           cp0 = ([], []);
           cp1 = add_filter (truthy venue_name) ''m.venue LIKE ?'' [Wild venue_name] cp0;
           cp2 = add_filter (truthy city) ''m.venue LIKE ?'' [Wild city] cp1
       in bind_exn (execute_query db (Venues (fst cp2)) (snd cp2))
            (listing ''venues'' ''total_venues''))"

section \<open>The dispatcher\<close>

record server_info =
  si_name :: string
  si_version :: string
  si_description :: string

definition the_server_info :: server_info where
  "the_server_info = \<lparr>si_name = ''ipl-mcp-server'', si_version = ''1.0.0'',
                       si_description = ''IPL Cricket Statistics MCP Server''\<rparr>"

text \<open>
  The \<^verbatim>\<open>result\<close> member of a success envelope. \<open>Initialize v info\<close> is the protocol
  version \<open>v\<close>, the fixed capabilities (empty \<^verbatim>\<open>tools\<close>, \<^verbatim>\<open>resources\<close> and \<^verbatim>\<open>prompts\<close>)
  and the server information. \<open>ToolContent r\<close> is
  \<^verbatim>\<open>{"content": [{"type": "text", "text": json.dumps(r, indent=2)}]}\<close>: one text block
  holding the serialisation of the handler's result \<open>r\<close>. \<open>ResourcesList\<close> and
  \<open>PromptsList\<close> are the empty lists of those names.
\<close>

datatype result =
    Initialize string server_info
  | ToolsList "tool list"
  | ToolContent tool_result
  | ResourcesList
  | PromptsList

text \<open>
  The \<^verbatim>\<open>message\<close> member of a failure envelope, by the format string that builds it:
  \<^verbatim>\<open>"Parse error"\<close>, \<^verbatim>\<open>f"Unknown tool: {name}"\<close>, \<^verbatim>\<open>f"Unknown method: {method}"\<close>,
  \<^verbatim>\<open>f"Internal error: {str(e)}"\<close>.
\<close>

datatype message =
    ParseError
  | UnknownTool pyval
  | UnknownMethod pyval
  | InternalError exn

text \<open>
  A response (\<^verbatim>\<open>"jsonrpc": "2.0"\<close> throughout): \<open>Success id result\<close> or
  \<open>Failure id code message\<close>.
\<close>

datatype envelope =
    Success pyval result
  | Failure pyval int message

definition handlers :: "(string \<times> (store \<Rightarrow> pyval \<Rightarrow> exn + tool_result)) list" where
  "handlers =
    [(''get_team_info'', handle_get_team_info),
     (''get_player_info'', handle_get_player_info),
     (''get_match_details'', handle_get_match_details),
     (''get_ball_by_ball'', handle_get_ball_by_ball),
     (''get_player_performance'', handle_get_player_performance),
     (''get_match_officials'', handle_get_match_officials),
     (''get_venue_info'', handle_get_venue_info)]"

text \<open>
  \<^verbatim>\<open>name in handlers\<close> hashes \<open>name\<close> and then compares it with the keys, which are
  strings; \<^verbatim>\<open>handlers[name]\<close> is the handler found.
\<close>

definition lookup_handler :: "pyval \<Rightarrow> exn + (store \<Rightarrow> pyval \<Rightarrow> exn + tool_result) option" where
  "lookup_handler name =
     (if \<not> hashable name then Inl (TypeError name)
      else Inr (case name of PStr s \<Rightarrow> map_of handlers s | _ \<Rightarrow> None))"

definition tools_call :: "store \<Rightarrow> (string \<times> pyval) list \<Rightarrow> exn + envelope" where
  "tools_call db request =
     bind_exn (py_dict (dict_get_default request ''params'' (PDict []))) (\<lambda>params.
       let name = dict_get params ''name'';
           arguments = dict_get_default params ''arguments'' (PDict [])
       in bind_exn (lookup_handler name) (\<lambda>found.
            case found of
              Some handler \<Rightarrow>
                (case handler db arguments of
                   Inr result \<Rightarrow> Inr (Success (dict_get request ''id'') (ToolContent result))
                 | Inl e \<Rightarrow> Inr (Failure (dict_get request ''id'') (- 32603) (InternalError e)))
            | None \<Rightarrow> Inr (Failure (dict_get request ''id'') (- 32601) (UnknownTool name))))"

text \<open>
  \<^verbatim>\<open>handle_request\<close>. \<open>Inl e\<close> is an exception that leaves the method: none of its
  own \<^verbatim>\<open>try\<close> blocks covers the reads of \<^verbatim>\<open>request\<close>, \<^verbatim>\<open>params\<close> and \<^verbatim>\<open>handlers\<close>.
\<close>

definition handle_request :: "store \<Rightarrow> pyval \<Rightarrow> exn + envelope" where
  "handle_request db req =
     bind_exn (py_dict req) (\<lambda>request.
       let method = dict_get request ''method'' in
       if method = PStr ''initialize'' then
         Inr (Success (dict_get request ''id'') (Initialize ''2024-11-05'' the_server_info))
       else if method = PStr ''tools/list'' then
         Inr (Success (dict_get request ''id'') (ToolsList get_tools))
       else if method = PStr ''tools/call'' then tools_call db request
       else if method = PStr ''resources/list'' then
         Inr (Success (dict_get request ''id'') ResourcesList)
       else if method = PStr ''prompts/list'' then
         Inr (Success (dict_get request ''id'') PromptsList)
       else Inr (Failure (dict_get request ''id'') (- 32601) (UnknownMethod method)))"

section \<open>The request loop\<close>

text \<open>
  One line of standard input: the empty line, a line that \<^verbatim>\<open>json.loads\<close> rejects, or a
  line that decodes to a value. The end of the list is the end of input.
\<close>

datatype line = Blank | Garbage | Json pyval

text \<open>\<^verbatim>\<open>main\<close>: the responses printed, in order.\<close>

fun main_loop :: "store \<Rightarrow> line list \<Rightarrow> envelope list" where
  "main_loop db [] = []"
| "main_loop db (Blank # ls) = []"
| "main_loop db (Garbage # ls) = Failure PNone (- 32700) ParseError # main_loop db ls"
| "main_loop db (Json req # ls) =
     (case handle_request db req of
        Inr response \<Rightarrow> response
      | Inl e \<Rightarrow> Failure PNone (- 32603) (InternalError e)) # main_loop db ls"

section \<open>Vocabulary of the statements\<close>


text \<open>
  The response of \<^verbatim>\<open>tools/call\<close> for a handler that returned or raised: the two
  branches of the \<^verbatim>\<open>try\<close> statement around the handler.
\<close>

definition wrap_outcome :: "pyval \<Rightarrow> exn + tool_result \<Rightarrow> envelope" where
  "wrap_outcome rid out = (case out of Inr res \<Rightarrow> Success rid (ToolContent res)
                             | Inl e \<Rightarrow> Failure rid (- 32603) (InternalError e))"

definition tool_names :: "string list" where
  "tool_names = map t_name get_tools"

text \<open>The value of a column of a row, \<^verbatim>\<open>NULL\<close> for a column the row lacks.\<close>

definition col :: "row \<Rightarrow> string \<Rightarrow> cell" where
  "col r k = (case map_of r k of None \<Rightarrow> CNull | Some v \<Rightarrow> v)"

definition cell_int :: "cell \<Rightarrow> int option" where
  "cell_int c = (case c of CInt i \<Rightarrow> Some i | _ \<Rightarrow> None)"

text \<open>
  The key by which the deliveries of a result are compared: innings, then over, then
  ball, each ascending with \<^verbatim>\<open>NULL\<close> before every number (the lexicographic order of
  the triple).
\<close>

definition row_order_key :: "row \<Rightarrow> int option \<times> int option \<times> int option" where
  "row_order_key r =
     (cell_int (col r ''innings''), cell_int (col r ''over''), cell_int (col r ''ball''))"

text \<open>The (innings, over) pair of a returned delivery.\<close>

definition innings_over_of :: "row \<Rightarrow> cell \<times> cell" where
  "innings_over_of r = pair_key (col r ''innings'', col r ''over'')"

text \<open>A store whose engine raises nothing but \<^verbatim>\<open>sqlite3.Error\<close>.\<close>

definition only_sqlite_faults :: "store \<Rightarrow> bool" where
  "only_sqlite_faults db = (\<forall>q ps e. fault db q ps = Some e \<longrightarrow> (\<exists>m. e = Sqlite3Error m))"

subsection \<open>Example stores and requests\<close>

definition empty_store :: store where
  "empty_store = \<lparr>deliveries = [], matches = [], sat = (\<lambda>c p d. True),
                   other = (\<lambda>q ps. []), fault = (\<lambda>q ps. None)\<rparr>"

text \<open>A store without the tables: every query raises \<^verbatim>\<open>sqlite3.OperationalError\<close>.\<close>

definition faulty_store :: store where
  "faulty_store = empty_store\<lparr>fault := (\<lambda>q ps. Some (Sqlite3Error ''no such table''))\<rparr>"

text \<open>
  The request \<^verbatim>\<open>{"jsonrpc": "2.0", "id": rid, "method": "tools/call",
  "params": {"name": name, "arguments": arguments}}\<close>.
\<close>

definition call_request :: "pyval \<Rightarrow> pyval \<Rightarrow> pyval \<Rightarrow> pyval" where
  "call_request rid name arguments =
     PDict [(''jsonrpc'', PStr ''2.0''), (''id'', rid), (''method'', PStr ''tools/call''),
            (''params'', PDict [(''name'', name), (''arguments'', arguments)])]"

text \<open>
  A store with four deliveries of match 335982, in no particular order, and an engine
  that compares identifiers and numbers exactly.
\<close>

definition sample_delivery ::
  "int \<Rightarrow> int \<Rightarrow> int \<Rightarrow> int \<Rightarrow> string \<Rightarrow> string \<Rightarrow> int \<Rightarrow> delivery" where
  "sample_delivery i inn ov b bat bowl runs =
     \<lparr>d_id = Some i, d_match_id = Some ''335982'', d_innings = Some inn, d_over = Some ov,
      d_ball = Some b, d_batter = Some bat, d_bowler = Some bowl, d_runs_batter = Some runs,
      d_runs_total = Some runs, d_wicket_type = None, d_rest = []\<rparr>"

definition sample_match :: match where
  "sample_match = \<lparr>m_id = Some ''335982'', m_team1 = Some ''RCB'', m_team2 = Some ''KKR''\<rparr>"

definition sample_sat :: "string \<Rightarrow> param \<Rightarrow> delivery \<Rightarrow> bool" where
  "sample_sat c p d =
     (if c = ''d.match_id = ?'' then
        (case p of Plain (PStr s) \<Rightarrow> d_match_id d = Some s | _ \<Rightarrow> False)
      else if c = ''d.innings = ?'' then
        (case p of Plain (PInt i) \<Rightarrow> d_innings d = Some i | _ \<Rightarrow> False)
      else if c = ''d.over >= ?'' then
        (case p of Plain (PInt i) \<Rightarrow> (case d_over d of None \<Rightarrow> False | Some ov \<Rightarrow> i \<le> ov)
         | _ \<Rightarrow> False)
      else if c = ''d.over <= ?'' then
        (case p of Plain (PInt i) \<Rightarrow> (case d_over d of None \<Rightarrow> False | Some ov \<Rightarrow> ov \<le> i)
         | _ \<Rightarrow> False)
      else if c = ''d.batter LIKE ?'' then
        (case p of Wild (PStr s) \<Rightarrow> d_batter d = Some s | _ \<Rightarrow> False)
      else if c = ''d.bowler LIKE ?'' then
        (case p of Wild (PStr s) \<Rightarrow> d_bowler d = Some s | _ \<Rightarrow> False)
      else False)"

definition sample_store :: store where
  "sample_store =
     \<lparr>deliveries = [sample_delivery 1 2 0 1 ''Kohli'' ''Zaheer'' 4,
                    sample_delivery 2 1 1 1 ''McCullum'' ''Kumar'' 6,
                    sample_delivery 3 1 0 2 ''Ganguly'' ''Kumar'' 0,
                    sample_delivery 4 1 0 1 ''McCullum'' ''Kumar'' 1],
      matches = [sample_match],
      sat = sample_sat,
      other = (\<lambda>q ps. []),
      fault = (\<lambda>q ps. None)\<rparr>"

text \<open>The four deliveries in the order of innings, over and ball.\<close>

definition sample_ordered :: "row list" where
  "sample_ordered =
     map ball_row
       [(sample_delivery 4 1 0 1 ''McCullum'' ''Kumar'' 1, sample_match),
        (sample_delivery 3 1 0 2 ''Ganguly'' ''Kumar'' 0, sample_match),
        (sample_delivery 2 1 1 1 ''McCullum'' ''Kumar'' 6, sample_match),
        (sample_delivery 1 2 0 1 ''Kohli'' ''Zaheer'' 4, sample_match)]"

section \<open>Basic facts\<close>

lemma bind_exn_Inl [simp]: "bind_exn (Inl e) f = Inl e"
  by (simp add: bind_exn_def)

lemma bind_exn_Inr [simp]: "bind_exn (Inr x) f = f x"
  by (simp add: bind_exn_def)

lemma py_dict_PDict [simp]: "py_dict (PDict d) = Inr d"
  by (simp add: py_dict_def)

lemma dict_get_absent_None: "map_of b k = None \<Longrightarrow> dict_get b k = PNone"
  by (simp add: dict_get_def dict_get_default_def)

lemma dict_get_default_absent:
  "map_of a k = None \<Longrightarrow> k' \<noteq> k \<Longrightarrow>
     dict_get_default ((k, PNone) # a) k' v = dict_get_default a k' v"
  by (simp add: dict_get_default_def)

lemma dict_get_absent:
  "map_of a k = None \<Longrightarrow> dict_get ((k, PNone) # a) k' = dict_get a k'"
  by (simp add: dict_get_def dict_get_default_def)

lemma map_of_filter_fst:
  "map_of (filter (\<lambda>kv. fst kv \<in> S) a) k = (if k \<in> S then map_of a k else None)"
  by (induction a) auto

lemma dict_get_default_filter:
  "k \<in> S \<Longrightarrow> dict_get_default (filter (\<lambda>kv. fst kv \<in> S) a) k v = dict_get_default a k v"
  by (simp add: dict_get_default_def map_of_filter_fst)

lemma dict_get_filter:
  "k \<in> S \<Longrightarrow> dict_get (filter (\<lambda>kv. fst kv \<in> S) a) k = dict_get a k"
  by (simp add: dict_get_def dict_get_default_filter)

lemma py_in_iff: "py_in v [x, y] = (v = PStr x \<or> v = PStr y)"
  by (cases v) (auto simp: py_in_def)

subsection \<open>The registry and the dispatch table\<close>

lemma tool_names_eq:
  "tool_names = [''get_team_info'', ''get_player_info'', ''get_match_details'',
     ''get_ball_by_ball'', ''get_player_performance'', ''get_match_officials'', ''get_venue_info'']"
  by (simp add: tool_names_def get_tools_def)

text \<open>The keys of \<^verbatim>\<open>handlers\<close> are the names of the tools that \<^verbatim>\<open>get_tools\<close> lists.\<close>

lemma handlers_keys: "map fst handlers = tool_names"
  by (simp add: tool_names_eq handlers_def)

lemma map_of_handlers_None: "s \<notin> set tool_names \<Longrightarrow> map_of handlers s = None"
  by (simp add: map_of_eq_None_iff handlers_keys [symmetric])

lemma map_of_handlers_Some: "s \<in> set tool_names \<Longrightarrow> \<exists>h. map_of handlers s = Some h"
  by (metis handlers_keys map_of_eq_None_iff not_Some_eq set_map)

lemma map_of_handlers_simps:
  "map_of handlers ''get_team_info'' = Some handle_get_team_info"
  "map_of handlers ''get_player_info'' = Some handle_get_player_info"
  "map_of handlers ''get_match_details'' = Some handle_get_match_details"
  "map_of handlers ''get_ball_by_ball'' = Some handle_get_ball_by_ball"
  "map_of handlers ''get_player_performance'' = Some handle_get_player_performance"
  "map_of handlers ''get_match_officials'' = Some handle_get_match_officials"
  "map_of handlers ''get_venue_info'' = Some handle_get_venue_info"
  by (simp_all add: handlers_def)

lemma handlers_cases:
  assumes "map_of handlers n = Some h"
  obtains "n = ''get_team_info''" "h = handle_get_team_info"
    | "n = ''get_player_info''" "h = handle_get_player_info"
    | "n = ''get_match_details''" "h = handle_get_match_details"
    | "n = ''get_ball_by_ball''" "h = handle_get_ball_by_ball"
    | "n = ''get_player_performance''" "h = handle_get_player_performance"
    | "n = ''get_match_officials''" "h = handle_get_match_officials"
    | "n = ''get_venue_info''" "h = handle_get_venue_info"
proof -
  from assms have "(n, h) \<in> set handlers"
    by (rule map_of_SomeD)
  then have "(n, h) = (''get_team_info'', handle_get_team_info)
      \<or> (n, h) = (''get_player_info'', handle_get_player_info)
      \<or> (n, h) = (''get_match_details'', handle_get_match_details)
      \<or> (n, h) = (''get_ball_by_ball'', handle_get_ball_by_ball)
      \<or> (n, h) = (''get_player_performance'', handle_get_player_performance)
      \<or> (n, h) = (''get_match_officials'', handle_get_match_officials)
      \<or> (n, h) = (''get_venue_info'', handle_get_venue_info)"
    unfolding handlers_def by (simp only: list.set insert_iff empty_iff simp_thms)
  then show thesis
    using that by (elim disjE) (simp_all only: prod.inject)
qed

lemma declared_keys_simps:
  "declared_keys ''get_team_info'' = [''team_name'']"
  "declared_keys ''get_player_info'' = [''player_name'', ''team_name'']"
  "declared_keys ''get_match_details'' = [''match_id'', ''season'', ''team_name'', ''venue'']"
  "declared_keys ''get_ball_by_ball'' = [''match_id'', ''innings'', ''over_start'', ''over_end'']"
  "declared_keys ''get_player_performance'' = [''player_name'', ''match_id'', ''stat_type'']"
  "declared_keys ''get_match_officials'' = [''match_id'', ''official_name'']"
  "declared_keys ''get_venue_info'' = [''venue_name'', ''city'']"
  by (simp_all add: declared_keys_def find_tool_def get_tools_def)

lemma required_keys_simps:
  "required_keys ''get_team_info'' = []"
  "required_keys ''get_player_info'' = []"
  "required_keys ''get_match_details'' = []"
  "required_keys ''get_ball_by_ball'' = [''match_id'']"
  "required_keys ''get_player_performance'' = [''player_name'']"
  "required_keys ''get_match_officials'' = []"
  "required_keys ''get_venue_info'' = []"
  by (simp_all add: required_keys_def find_tool_def get_tools_def)

text \<open>Only two tools declare a required key.\<close>

lemma required_keys_cases:
  assumes "k \<in> set (required_keys n)"
  obtains "n = ''get_ball_by_ball''" "k = ''match_id''"
    | "n = ''get_player_performance''" "k = ''player_name''"
  using assms
  by (simp add: required_keys_def find_tool_def get_tools_def split: if_splits)

subsection \<open>The dispatcher on a call\<close>

lemma lookup_handler_PStr [simp]: "lookup_handler (PStr s) = Inr (map_of handlers s)"
  by (simp add: lookup_handler_def)

lemma handle_request_call:
  assumes "dict_get request ''method'' = PStr ''tools/call''"
      and "dict_get_default request ''params'' (PDict []) = PDict params"
  shows "handle_request db (PDict request) =
     bind_exn (lookup_handler (dict_get params ''name'')) (\<lambda>found.
        case found of
          Some handler \<Rightarrow> Inr (wrap_outcome (dict_get request ''id'')
             (handler db (dict_get_default params ''arguments'' (PDict []))))
        | None \<Rightarrow> Inr (Failure (dict_get request ''id'') (- 32601)
                        (UnknownTool (dict_get params ''name''))))"
  using assms
  by (auto simp: handle_request_def tools_call_def wrap_outcome_def Let_def
      intro!: arg_cong2 [where f = bind_exn] split: option.splits sum.splits)

lemma handle_request_registered:
  assumes "dict_get request ''method'' = PStr ''tools/call''"
      and "dict_get_default request ''params'' (PDict []) = PDict params"
      and "dict_get params ''name'' = PStr n"
      and "map_of handlers n = Some h"
  shows "handle_request db (PDict request) =
           Inr (wrap_outcome (dict_get request ''id'')
                  (h db (dict_get_default params ''arguments'' (PDict []))))"
  using assms by (simp add: handle_request_call)

text \<open>No branch of the dispatcher produces the code for invalid parameters.\<close>

lemma no_invalid_params: "handle_request db req \<noteq> Inr (Failure rid (- 32602) m)"
  by (auto simp: handle_request_def tools_call_def Let_def bind_exn_def py_dict_def
      lookup_handler_def split: sum.splits option.splits pyval.splits if_splits)

text \<open>A handler reads only keys that its schema declares.\<close>

lemma handler_ignores_undeclared:
  assumes "map_of handlers n = Some h"
  shows "h db (PDict (filter (\<lambda>kv. fst kv \<in> set (declared_keys n)) a)) = h db (PDict a)"
  using assms
proof (cases rule: handlers_cases)
  case 1
  have "''team_name'' \<in> set (declared_keys n)"
    by (simp add: 1 declared_keys_simps)
  then show ?thesis
    unfolding 1(2) handle_get_team_info_def by (simp add: dict_get_filter)
next
  case 2
  have "''player_name'' \<in> set (declared_keys n)" "''team_name'' \<in> set (declared_keys n)"
    by (simp_all add: 2 declared_keys_simps)
  then show ?thesis
    unfolding 2(2) handle_get_player_info_def by (simp add: dict_get_filter)
next
  case 3
  have "''match_id'' \<in> set (declared_keys n)" "''season'' \<in> set (declared_keys n)"
    "''team_name'' \<in> set (declared_keys n)" "''venue'' \<in> set (declared_keys n)"
    by (simp_all add: 3 declared_keys_simps)
  then show ?thesis
    unfolding 3(2) handle_get_match_details_def by (simp add: dict_get_filter)
next
  case 4
  have "''match_id'' \<in> set (declared_keys n)" "''innings'' \<in> set (declared_keys n)"
    "''over_start'' \<in> set (declared_keys n)" "''over_end'' \<in> set (declared_keys n)"
    by (simp_all add: 4 declared_keys_simps)
  then show ?thesis
    unfolding 4(2) handle_get_ball_by_ball_def ball_by_ball_filters_def
    by (simp add: dict_get_filter)
next
  case 5
  have "''player_name'' \<in> set (declared_keys n)" "''match_id'' \<in> set (declared_keys n)"
    "''stat_type'' \<in> set (declared_keys n)"
    by (simp_all add: 5 declared_keys_simps)
  then show ?thesis
    unfolding 5(2) handle_get_player_performance_def batting_filters_def bowling_filters_def
    by (simp add: dict_get_filter dict_get_default_filter Let_def)
next
  case 6
  have "''match_id'' \<in> set (declared_keys n)" "''official_name'' \<in> set (declared_keys n)"
    by (simp_all add: 6 declared_keys_simps)
  then show ?thesis
    unfolding 6(2) handle_get_match_officials_def by (simp add: dict_get_filter)
next
  case 7
  have "''venue_name'' \<in> set (declared_keys n)" "''city'' \<in> set (declared_keys n)"
    by (simp_all add: 7 declared_keys_simps)
  then show ?thesis
    unfolding 7(2) handle_get_venue_info_def by (simp add: dict_get_filter)
qed

subsection \<open>Query execution\<close>

lemma execute_query_no_fault:
  "fault db q ps = None \<Longrightarrow> execute_query db q ps = Inr (run_sql db q ps)"
  by (simp add: execute_query_def)

text \<open>An exception that is not a \<^verbatim>\<open>sqlite3.Error\<close> leaves \<^verbatim>\<open>execute_query\<close>.\<close>

lemma execute_query_other_fault:
  "fault db q ps = Some (OtherError m) \<Longrightarrow> execute_query db q ps = Inl (OtherError m)"
  by (simp add: execute_query_def)

lemma execute_query_cases:
  assumes "only_sqlite_faults db"
  shows "execute_query db q ps = Inr (if fault db q ps = None then run_sql db q ps else [])"
proof (cases "fault db q ps")
  case None
  then show ?thesis by (simp add: execute_query_def)
next
  case (Some e)
  with assms obtain m where "e = Sqlite3Error m"
    unfolding only_sqlite_faults_def by blast
  with Some show ?thesis by (simp add: execute_query_def)
qed

text \<open>The deliveries query yields the ordered selection, or nothing after a caught fault.\<close>

lemma execute_query_Deliveries:
  assumes "execute_query db (Deliveries conds) ps = Inr rows"
  shows "rows = select_deliveries db conds ps \<or> rows = []"
  using assms by (auto simp: execute_query_def split: option.splits exn.splits)

subsection \<open>The rows of the deliveries query\<close>

lemma getitem_ball_row [simp]:
  "getitem (ball_row dm) ''innings'' = Inr (int_cell (d_innings (fst dm)))"
  "getitem (ball_row dm) ''over'' = Inr (int_cell (d_over (fst dm)))"
  by (simp_all add: getitem_def ball_row_def delivery_row_def)

lemma col_ball_row [simp]:
  "col (ball_row dm) ''innings'' = int_cell (d_innings (fst dm))"
  "col (ball_row dm) ''over'' = int_cell (d_over (fst dm))"
  "col (ball_row dm) ''ball'' = int_cell (d_ball (fst dm))"
  by (simp_all add: col_def ball_row_def delivery_row_def)

lemma cell_int_int_cell [simp]: "cell_int (int_cell v) = v"
  by (cases v) (simp_all add: cell_int_def int_cell_def)

lemma row_order_key_ball_row [simp]: "row_order_key (ball_row dm) = order_key (fst dm)"
  by (simp add: row_order_key_def order_key_def)

text \<open>On rows of the query, \<^verbatim>\<open>r['innings']\<close> and \<^verbatim>\<open>r['over']\<close> never raise.\<close>

lemma innings_over_ball_rows:
  "innings_over (map ball_row xs) =
     Inr (map (\<lambda>r. (col r ''innings'', col r ''over'')) (map ball_row xs))"
  by (induction xs) simp_all

lemma overs_covered_Nil [simp]: "overs_covered [] = Inr 0"
  by (simp add: overs_covered_def)

lemma overs_covered_ball_rows:
  "overs_covered (map ball_row xs) = Inr (card (innings_over_of ` set (map ball_row xs)))"
proof -
  have eq: "map pair_key (map (\<lambda>r. (col r ''innings'', col r ''over'')) rs) = map innings_over_of rs"
    for rs :: "row list"
    by (simp add: innings_over_of_def)
  have "overs_covered (map ball_row xs) =
        Inr (length (remdups (map pair_key
          (map (\<lambda>r. (col r ''innings'', col r ''over'')) (map ball_row xs)))))"
    by (simp only: overs_covered_def innings_over_ball_rows bind_exn_Inr)
  also have "\<dots> = Inr (length (remdups (map innings_over_of (map ball_row xs))))"
    by (simp only: eq)
  also have "\<dots> = Inr (card (set (map innings_over_of (map ball_row xs))))"
    by (simp only: length_remdups_card_conv)
  finally show ?thesis by (simp only: set_map)
qed

lemma overs_covered_select: "\<exists>n. overs_covered (select_deliveries db conds ps) = Inr n"
  unfolding select_deliveries_def by (simp only: overs_covered_ball_rows) blast

lemma sorted_select_deliveries: "sorted (map row_order_key (select_deliveries db conds ps))"
proof -
  have "map row_order_key (select_deliveries db conds ps) =
        map (\<lambda>dm. order_key (fst dm))
          (sort_key (\<lambda>dm. order_key (fst dm))
             (filter (\<lambda>dm. where_holds db conds ps (fst dm)) (join_matches db)))"
    by (simp add: select_deliveries_def comp_def)
  then show ?thesis by (simp only: sorted_sort_key)
qed

text \<open>Every returned row is a delivery of the store that satisfies each condition.\<close>

lemma select_deliveries_sat:
  assumes "r \<in> set (select_deliveries db conds ps)" and "(c, p) \<in> set (zip conds ps)"
  shows "\<exists>d m. r = ball_row (d, m) \<and> d \<in> set (deliveries db) \<and> sat db c p d"
proof -
  from assms(1) obtain dm where dm: "r = ball_row dm" "dm \<in> set (join_matches db)"
    "where_holds db conds ps (fst dm)"
    by (auto simp: select_deliveries_def)
  from dm(3) assms(2) have "sat db c p (fst dm)"
    by (auto simp: where_holds_def list_all_iff)
  moreover from dm(2) have "fst dm \<in> set (deliveries db)"
    by (auto simp: join_matches_def)
  ultimately show ?thesis
    using dm(1) by (metis prod.collapse)
qed

subsection \<open>The ball-by-ball handler\<close>

lemma ball_by_ball_filters_unfold:
  "ball_by_ball_filters a =
     add_filter (dict_get a ''over_end'' \<noteq> PNone) ''d.over <= ?'' [Plain (dict_get a ''over_end'')]
       (add_filter (dict_get a ''over_start'' \<noteq> PNone) ''d.over >= ?''
            [Plain (dict_get a ''over_start'')]
         (add_filter (truthy (dict_get a ''innings'')) ''d.innings = ?''
              [Plain (dict_get a ''innings'')]
           ([''d.match_id = ?''], [Plain (dict_get a ''match_id'')])))"
  by (simp add: ball_by_ball_filters_def Let_def)

lemma ball_by_ball_result:
  assumes "handle_get_ball_by_ball db (PDict a) = Inr (BallByBall match_info rows n_total oc)"
  shows "(rows = select_deliveries db (fst (ball_by_ball_filters a)) (snd (ball_by_ball_filters a))
            \<or> rows = []) \<and>
         overs_covered rows = Inr oc \<and> n_total = length rows"
  using assms
  by (auto simp: handle_get_ball_by_ball_def Let_def bind_exn_def
      dest!: execute_query_Deliveries split: sum.splits)

lemma innings_zero_as_absent:
  assumes "dict_get a ''innings'' = PInt 0" and "map_of b ''innings'' = None"
      and "dict_get b ''match_id'' = dict_get a ''match_id''"
      and "dict_get b ''over_start'' = dict_get a ''over_start''"
      and "dict_get b ''over_end'' = dict_get a ''over_end''"
  shows "handle_get_ball_by_ball db (PDict a) = handle_get_ball_by_ball db (PDict b)"
proof -
  have "ball_by_ball_filters a = ball_by_ball_filters b"
    using assms by (simp add: ball_by_ball_filters_unfold dict_get_absent_None add_filter_def)
  then show ?thesis
    using assms(3) by (simp add: handle_get_ball_by_ball_def)
qed

lemma filters_conditions:
  "(''d.innings = ?'' \<in> set (fst (ball_by_ball_filters a))) = truthy (dict_get a ''innings'')"
  "(''d.over >= ?'' \<in> set (fst (ball_by_ball_filters a))) = (dict_get a ''over_start'' \<noteq> PNone)"
  "(''d.over <= ?'' \<in> set (fst (ball_by_ball_filters a))) = (dict_get a ''over_end'' \<noteq> PNone)"
  by (simp_all add: ball_by_ball_filters_unfold add_filter_def)

lemma over_start_bound:
  "dict_get a ''over_start'' \<noteq> PNone \<Longrightarrow>
     (''d.over >= ?'', Plain (dict_get a ''over_start'')) \<in>
       set (zip (fst (ball_by_ball_filters a)) (snd (ball_by_ball_filters a)))"
  by (simp add: ball_by_ball_filters_unfold add_filter_def)

subsection \<open>The aggregates over no balls\<close>

lemma sql_count_Nil [simp]: "sql_count [] = 0"
  by (simp add: sql_count_def)



subsection \<open>Handlers on a store that raises only \<^verbatim>\<open>sqlite3.Error\<close>\<close>

lemma handlers_succeed:
  assumes "only_sqlite_faults db" and "map_of handlers n = Some h"
  shows "\<exists>res. h db (PDict a) = Inr res"
  using assms(2)
proof (cases rule: handlers_cases)
  case 1
  then show ?thesis
    by (simp add: handle_get_team_info_def execute_query_cases [OF assms(1)] listing_def Let_def)
next
  case 2
  then show ?thesis
    by (simp add: handle_get_player_info_def execute_query_cases [OF assms(1)] listing_def Let_def)
next
  case 3
  then show ?thesis
    by (simp add: handle_get_match_details_def execute_query_cases [OF assms(1)] listing_def Let_def)
next
  case 4
  obtain k where "overs_covered (select_deliveries db (fst (ball_by_ball_filters a))
      (snd (ball_by_ball_filters a))) = Inr k"
    using overs_covered_select by blast
  with 4 show ?thesis
    by (simp add: handle_get_ball_by_ball_def execute_query_cases [OF assms(1)] Let_def)
next
  case 5
  then show ?thesis
    by (simp add: handle_get_player_performance_def execute_query_cases [OF assms(1)] Let_def)
next
  case 6
  then show ?thesis
    by (simp add: handle_get_match_officials_def execute_query_cases [OF assms(1)] listing_def Let_def)
next
  case 7
  then show ?thesis
    by (simp add: handle_get_venue_info_def execute_query_cases [OF assms(1)] listing_def Let_def)
qed

subsection \<open>The example store\<close>

lemma sample_store_simps [simp]:
  "fault sample_store q ps = None" "other sample_store q ps = []"
  by (simp_all add: sample_store_def)

lemma sample_select:
  "select_deliveries sample_store [''d.match_id = ?''] [Plain (PStr ''335982'')] = sample_ordered"
  by (simp add: select_deliveries_def join_matches_def sample_store_def sample_match_def
      sample_delivery_def where_holds_def sample_sat_def order_key_def sample_ordered_def)

lemma sample_select_from_over_0:
  "select_deliveries sample_store [''d.match_id = ?'', ''d.over >= ?'']
       [Plain (PStr ''335982''), Plain (PInt 0)] = sample_ordered"
  by (simp add: select_deliveries_def join_matches_def sample_store_def sample_match_def
      sample_delivery_def where_holds_def sample_sat_def order_key_def sample_ordered_def)

lemma sample_overs_covered: "overs_covered sample_ordered = Inr 3"
  by (simp add: sample_ordered_def overs_covered_def sample_delivery_def pair_key_def
      py_key_def int_cell_def)

lemma sample_order_keys:
  "map row_order_key sample_ordered =
     [(Some 1, Some 0, Some 1), (Some 1, Some 0, Some 2), (Some 1, Some 1, Some 1),
      (Some 2, Some 0, Some 1)]"
  by (simp add: sample_ordered_def sample_delivery_def order_key_def)


lemma sample_bowling_none:
  "filter (where_holds sample_store
       (fst (bowling_filters [(''player_name'', PStr ''Kohli''), (''stat_type'', PStr ''bowling'')]))
       (snd (bowling_filters [(''player_name'', PStr ''Kohli''), (''stat_type'', PStr ''bowling'')])))
     (deliveries sample_store) = []"
  by (simp add: bowling_filters_def add_filter_def dict_get_def dict_get_default_def
      where_holds_def sample_store_def sample_sat_def sample_delivery_def)

section \<open>Unknown argument keys\<close>

text \<open>
  Claim C1, as the code has it. The dispatcher does not compare the keys of
  \<^verbatim>\<open>arguments\<close> with the tool's \<^verbatim>\<open>inputSchema\<close>. For a \<^verbatim>\<open>tools/call\<close> request that
  names a registered tool and carries a mapping of arguments, the handler is invoked and
  the response is the one for the arguments restricted to the declared keys: a success
  envelope, or code -32603 if the handler raises. Code -32602 is never the answer.
\<close>

theorem undeclared_keys_ignored:
  assumes "dict_get request ''method'' = PStr ''tools/call''"
      and "dict_get_default request ''params'' (PDict []) = PDict params"
      and "dict_get params ''name'' = PStr n"
      and "n \<in> set tool_names"
      and "dict_get_default params ''arguments'' (PDict []) = PDict a"
  shows "\<exists>h. map_of handlers n = Some h \<and>
           handle_request db (PDict request) =
             Inr (wrap_outcome (dict_get request ''id'')
                    (h db (PDict (filter (\<lambda>kv. fst kv \<in> set (declared_keys n)) a)))) \<and>
           (\<forall>rid m. handle_request db (PDict request) \<noteq> Inr (Failure rid (- 32602) m))"
proof -
  from assms(4) obtain h where h: "map_of handlers n = Some h"
    using map_of_handlers_Some by blast
  have "handle_request db (PDict request) =
          Inr (wrap_outcome (dict_get request ''id'') (h db (PDict a)))"
    using assms h by (simp add: handle_request_registered)
  then show ?thesis
    using h handler_ignores_undeclared [OF h, of db a] no_invalid_params by metis
qed

text \<open>
  The key \<^verbatim>\<open>bogus\<close> is not a property of \<^verbatim>\<open>get_team_info\<close>, and the call that carries
  it is answered with the list of teams.
\<close>

theorem undeclared_key_counterexample:
  "''bogus'' \<notin> set (declared_keys ''get_team_info'') \<and>
   handle_request empty_store
     (call_request (PInt 1) (PStr ''get_team_info'') (PDict [(''bogus'', PInt 1)])) =
   Inr (Success (PInt 1) (ToolContent (Listing ''teams'' [] ''total_teams'' 0)))"
  by (simp add: declared_keys_simps call_request_def handle_request_def tools_call_def
      dict_get_def dict_get_default_def map_of_handlers_simps handle_get_team_info_def
      execute_query_def empty_store_def listing_def)

theorem undeclared_keys_ignored_witness:
  "handle_request empty_store
     (call_request (PInt 1) (PStr ''get_team_info'') (PDict [(''bogus'', PInt 1)])) =
   Inr (wrap_outcome (PInt 1) (handle_get_team_info empty_store (PDict [])))"
  using undeclared_keys_ignored [of
      "[(''jsonrpc'', PStr ''2.0''), (''id'', PInt 1), (''method'', PStr ''tools/call''),
        (''params'', PDict [(''name'', PStr ''get_team_info''),
                            (''arguments'', PDict [(''bogus'', PInt 1)])])]"
      "[(''name'', PStr ''get_team_info''), (''arguments'', PDict [(''bogus'', PInt 1)])]"
      "''get_team_info''" "[(''bogus'', PInt 1)]" empty_store]
  by (simp add: call_request_def dict_get_def dict_get_default_def tool_names_eq
      map_of_handlers_simps declared_keys_simps)

section \<open>Missing required arguments\<close>

text \<open>
  Claim C2, as the code has it. The dispatcher does not consult the \<^verbatim>\<open>required\<close> list
  of a schema. For a \<^verbatim>\<open>tools/call\<close> request that names a tool with a required key and
  carries a mapping of arguments without that key, the handler is invoked and the
  response is the one for the same arguments with the key bound to \<^verbatim>\<open>None\<close>: a success
  envelope, or code -32603 if the handler raises. Code -32602 is never the answer.
\<close>

theorem missing_required_not_rejected:
  assumes "dict_get request ''method'' = PStr ''tools/call''"
      and "dict_get_default request ''params'' (PDict []) = PDict params"
      and "dict_get params ''name'' = PStr n"
      and "k \<in> set (required_keys n)"
      and "dict_get_default params ''arguments'' (PDict []) = PDict a"
      and "map_of a k = None"
  shows "\<exists>h. map_of handlers n = Some h \<and>
           handle_request db (PDict request) =
             Inr (wrap_outcome (dict_get request ''id'') (h db (PDict ((k, PNone) # a)))) \<and>
           (\<forall>rid m. handle_request db (PDict request) \<noteq> Inr (Failure rid (- 32602) m))"
  using assms(4)
proof (cases rule: required_keys_cases)
  case 1
  have h: "map_of handlers n = Some handle_get_ball_by_ball"
    by (simp add: 1 map_of_handlers_simps)
  have same: "handle_get_ball_by_ball db (PDict ((k, PNone) # a)) =
              handle_get_ball_by_ball db (PDict a)"
    using assms(6)
    by (simp add: handle_get_ball_by_ball_def ball_by_ball_filters_def dict_get_absent)
  have "handle_request db (PDict request) =
          Inr (wrap_outcome (dict_get request ''id'') (handle_get_ball_by_ball db (PDict a)))"
    using assms(1,2,3,5) h by (simp add: handle_request_registered)
  then show ?thesis
    using h same no_invalid_params by metis
next
  case 2
  have h: "map_of handlers n = Some handle_get_player_performance"
    by (simp add: 2 map_of_handlers_simps)
  have same: "handle_get_player_performance db (PDict ((k, PNone) # a)) =
              handle_get_player_performance db (PDict a)"
    using assms(6) unfolding 2(2)
    by (simp add: handle_get_player_performance_def batting_filters_def bowling_filters_def
        dict_get_absent dict_get_default_absent Let_def)
  have "handle_request db (PDict request) =
          Inr (wrap_outcome (dict_get request ''id'') (handle_get_player_performance db (PDict a)))"
    using assms(1,2,3,5) h by (simp add: handle_request_registered)
  then show ?thesis
    using h same no_invalid_params by metis
qed

text \<open>
  \<^verbatim>\<open>get_ball_by_ball\<close> requires \<^verbatim>\<open>match_id\<close>, and the call without arguments is
  answered with an empty list of deliveries.
\<close>

theorem missing_required_counterexample:
  "''match_id'' \<in> set (required_keys ''get_ball_by_ball'') \<and>
   handle_request empty_store (call_request (PInt 1) (PStr ''get_ball_by_ball'') (PDict [])) =
   Inr (Success (PInt 1) (ToolContent (BallByBall None [] 0 0)))"
  by (simp add: required_keys_simps call_request_def handle_request_def tools_call_def
      dict_get_def dict_get_default_def map_of_handlers_simps handle_get_ball_by_ball_def
      ball_by_ball_filters_def add_filter_def execute_query_def empty_store_def
      select_deliveries_def join_matches_def first_or_none_def)

theorem missing_required_not_rejected_witness:
  "handle_request empty_store (call_request (PInt 1) (PStr ''get_ball_by_ball'') (PDict [])) =
   Inr (wrap_outcome (PInt 1)
          (handle_get_ball_by_ball empty_store (PDict [(''match_id'', PNone)])))"
  using missing_required_not_rejected [of
      "[(''jsonrpc'', PStr ''2.0''), (''id'', PInt 1), (''method'', PStr ''tools/call''),
        (''params'', PDict [(''name'', PStr ''get_ball_by_ball''), (''arguments'', PDict [])])]"
      "[(''name'', PStr ''get_ball_by_ball''), (''arguments'', PDict [])]"
      "''get_ball_by_ball''" "''match_id''" "[]" empty_store]
  by (simp add: call_request_def dict_get_def dict_get_default_def required_keys_simps
      map_of_handlers_simps)

section \<open>Faults of the store\<close>

text \<open>
  Claim C3, as the code has it. \<^verbatim>\<open>execute_query\<close> catches every \<^verbatim>\<open>sqlite3.Error\<close> and
  returns no rows. On a store whose engine raises nothing but \<^verbatim>\<open>sqlite3.Error\<close>, a query
  that faults yields the empty row list, and every \<^verbatim>\<open>tools/call\<close> request that names a
  registered tool with a mapping of arguments is answered with a success envelope.
\<close>

theorem sqlite_fault_yields_empty_rows:
  assumes "dict_get request ''method'' = PStr ''tools/call''"
      and "dict_get_default request ''params'' (PDict []) = PDict params"
      and "dict_get params ''name'' = PStr n"
      and "n \<in> set tool_names"
      and "dict_get_default params ''arguments'' (PDict []) = PDict a"
      and "\<And>q ps e. fault db q ps = Some e \<Longrightarrow> \<exists>m. e = Sqlite3Error m"
  shows "(\<forall>q ps. fault db q ps \<noteq> None \<longrightarrow> execute_query db q ps = Inr []) \<and>
         (\<exists>res. handle_request db (PDict request) =
                  Inr (Success (dict_get request ''id'') (ToolContent res)))"
proof -
  have only: "only_sqlite_faults db"
    using assms(6) by (auto simp: only_sqlite_faults_def)
  from assms(4) obtain h where h: "map_of handlers n = Some h"
    using map_of_handlers_Some by blast
  obtain res where "h db (PDict a) = Inr res"
    using handlers_succeed [OF only h] by blast
  then have "handle_request db (PDict request) =
      Inr (Success (dict_get request ''id'') (ToolContent res))"
    using assms(1,2,3,5) h by (simp add: handle_request_registered wrap_outcome_def)
  then show ?thesis
    by (auto simp: execute_query_cases [OF only])
qed

text \<open>
  On the store without tables the query of \<^verbatim>\<open>get_team_info\<close> raises, and the call
  is answered with an empty list of teams.
\<close>

theorem sqlite_fault_counterexample:
  "fault faulty_store TeamsAll [] = Some (Sqlite3Error ''no such table'') \<and>
   handle_request faulty_store (call_request (PInt 1) (PStr ''get_team_info'') (PDict [])) =
   Inr (Success (PInt 1) (ToolContent (Listing ''teams'' [] ''total_teams'' 0)))"
  by (simp add: call_request_def handle_request_def tools_call_def dict_get_def
      dict_get_default_def map_of_handlers_simps handle_get_team_info_def
      execute_query_def faulty_store_def empty_store_def listing_def)

theorem sqlite_fault_yields_empty_rows_witness:
  "execute_query faulty_store TeamsAll [] = Inr [] \<and>
   handle_request faulty_store (call_request (PInt 1) (PStr ''get_ball_by_ball'')
       (PDict [(''match_id'', PStr ''335982'')])) =
   Inr (Success (PInt 1) (ToolContent (BallByBall None [] 0 0)))"
proof -
  have run: "handle_request faulty_store (call_request (PInt 1) (PStr ''get_ball_by_ball'')
       (PDict [(''match_id'', PStr ''335982'')])) =
     Inr (Success (PInt 1) (ToolContent (BallByBall None [] 0 0)))"
    by (simp add: call_request_def handle_request_def tools_call_def dict_get_def
      dict_get_default_def map_of_handlers_simps handle_get_ball_by_ball_def
      ball_by_ball_filters_def add_filter_def
      execute_query_def faulty_store_def empty_store_def first_or_none_def)
  show ?thesis
    using run sqlite_fault_yields_empty_rows [of
        "[(''jsonrpc'', PStr ''2.0''), (''id'', PInt 1), (''method'', PStr ''tools/call''),
          (''params'', PDict [(''name'', PStr ''get_ball_by_ball''),
                              (''arguments'', PDict [(''match_id'', PStr ''335982'')])])]"
        "[(''name'', PStr ''get_ball_by_ball''),
          (''arguments'', PDict [(''match_id'', PStr ''335982'')])]"
        "''get_ball_by_ball''" "[(''match_id'', PStr ''335982'')]" faulty_store]
    by (simp add: dict_get_def dict_get_default_def tool_names_eq faulty_store_def empty_store_def)
qed

section \<open>Rates over no balls\<close>



section \<open>Failures of a handler\<close>

text \<open>
  Claim C5. When the handler of a \<^verbatim>\<open>tools/call\<close> request that names a registered tool
  raises an exception, the dispatcher answers with code -32603, a message built from
  the exception, and the id of the request; the loop prints that response and goes on
  with the remaining lines.
\<close>

theorem handler_failure_enveloped:
  assumes "dict_get request ''method'' = PStr ''tools/call''"
      and "dict_get_default request ''params'' (PDict []) = PDict params"
      and "dict_get params ''name'' = PStr n"
      and "map_of handlers n = Some h"
      and "h db (dict_get_default params ''arguments'' (PDict [])) = Inl e"
  shows "handle_request db (PDict request) =
           Inr (Failure (dict_get request ''id'') (- 32603) (InternalError e)) \<and>
         main_loop db (Json (PDict request) # rest) =
           Failure (dict_get request ''id'') (- 32603) (InternalError e) # main_loop db rest"
  using assms by (simp add: handle_request_registered wrap_outcome_def)

text \<open>
  A list in place of the arguments makes \<^verbatim>\<open>arguments.get\<close> raise; the next line is
  still served.
\<close>

theorem handler_failure_enveloped_witness:
  "handle_get_team_info empty_store (PList []) = Inl (AttributeError (PList [])) \<and>
   handle_request empty_store (call_request (PInt 7) (PStr ''get_team_info'') (PList [])) =
     Inr (Failure (PInt 7) (- 32603) (InternalError (AttributeError (PList [])))) \<and>
   main_loop empty_store
     [Json (call_request (PInt 7) (PStr ''get_team_info'') (PList [])),
      Json (PDict [(''id'', PInt 8), (''method'', PStr ''prompts/list'')])] =
     [Failure (PInt 7) (- 32603) (InternalError (AttributeError (PList []))),
      Success (PInt 8) PromptsList]"
proof -
  have raises: "handle_get_team_info empty_store (PList []) = Inl (AttributeError (PList []))"
    by (simp add: handle_get_team_info_def py_dict_def)
  have next_line:
    "main_loop empty_store [Json (PDict [(''id'', PInt 8), (''method'', PStr ''prompts/list'')])] =
      [Success (PInt 8) PromptsList]"
    by (simp add: handle_request_def dict_get_def dict_get_default_def)
  show ?thesis
    using raises next_line handler_failure_enveloped [of
      "[(''jsonrpc'', PStr ''2.0''), (''id'', PInt 7), (''method'', PStr ''tools/call''),
        (''params'', PDict [(''name'', PStr ''get_team_info''), (''arguments'', PList [])])]"
      "[(''name'', PStr ''get_team_info''), (''arguments'', PList [])]"
      "''get_team_info''" handle_get_team_info empty_store "AttributeError (PList [])"
      "[Json (PDict [(''id'', PInt 8), (''method'', PStr ''prompts/list'')])]"]
    by (simp add: call_request_def dict_get_def dict_get_default_def map_of_handlers_simps)
qed

section \<open>Unknown tools\<close>

text \<open>
  Claim C6, as the code has it. For a \<^verbatim>\<open>tools/call\<close> request whose \<^verbatim>\<open>params\<close> member
  is absent or a mapping and whose \<^verbatim>\<open>name\<close> is absent or a null, boolean, number or
  string other than the seven registered names, the response is a failure envelope with
  code -32601, a message built from the name, and the id of the request; the response
  does not depend on the store, so no handler runs.
\<close>

theorem unknown_tool_rejected:
  assumes "dict_get request ''method'' = PStr ''tools/call''"
      and "dict_get_default request ''params'' (PDict []) = PDict params"
      and "hashable (dict_get params ''name'')"
      and "\<forall>s \<in> set tool_names. dict_get params ''name'' \<noteq> PStr s"
  shows "handle_request db (PDict request) =
           Inr (Failure (dict_get request ''id'') (- 32601) (UnknownTool (dict_get params ''name'')))"
proof -
  have "lookup_handler (dict_get params ''name'') = Inr None"
    using assms(3,4)
    by (cases "dict_get params ''name''") (auto simp: lookup_handler_def map_of_handlers_None)
  then show ?thesis
    using assms(1,2) by (simp add: handle_request_call)
qed

theorem unknown_tool_rejected_witness:
  "handle_request empty_store (call_request (PInt 3) (PStr ''get_weather'') (PDict [])) =
     Inr (Failure (PInt 3) (- 32601) (UnknownTool (PStr ''get_weather'')))"
  using unknown_tool_rejected [of
      "[(''jsonrpc'', PStr ''2.0''), (''id'', PInt 3), (''method'', PStr ''tools/call''),
        (''params'', PDict [(''name'', PStr ''get_weather''), (''arguments'', PDict [])])]"
      "[(''name'', PStr ''get_weather''), (''arguments'', PDict [])]" empty_store]
  by (simp add: call_request_def dict_get_def dict_get_default_def tool_names_eq)

text \<open>
  A name that is a JSON array is none of the seven names, yet \<^verbatim>\<open>name in handlers\<close>
  raises \<^verbatim>\<open>TypeError\<close> outside every \<^verbatim>\<open>try\<close> of \<^verbatim>\<open>handle_request\<close>; the loop answers
  with code -32603 and a null id.
\<close>

theorem unknown_tool_counterexample:
  "handle_request empty_store (call_request (PInt 3) (PList []) (PDict [])) =
     Inl (TypeError (PList [])) \<and>
   main_loop empty_store [Json (call_request (PInt 3) (PList []) (PDict []))] =
     [Failure PNone (- 32603) (InternalError (TypeError (PList [])))]"
  by (simp add: call_request_def handle_request_def tools_call_def dict_get_def
      dict_get_default_def lookup_handler_def)

section \<open>The blocks of a performance result\<close>

text \<open>
  Claim C7. In the result of a \<^verbatim>\<open>get_player_performance\<close> call, \<^verbatim>\<open>stat_type\<close> is the
  argument of that name, or \<^verbatim>\<open>all\<close> when the key is absent; the performance mapping has
  a \<^verbatim>\<open>batting\<close> key exactly for \<^verbatim>\<open>batting\<close> and \<^verbatim>\<open>all\<close>, a \<^verbatim>\<open>bowling\<close> key exactly for
  \<^verbatim>\<open>bowling\<close> and \<^verbatim>\<open>all\<close>, and no other key. For \<^verbatim>\<open>fielding\<close> the call returns, whatever
  the store, a result with the empty performance mapping.
\<close>

theorem performance_blocks:
  "(\<forall>pn mid st perf.
      handle_get_player_performance db (PDict a) = Inr (Performance pn mid st perf) \<longrightarrow>
        st = dict_get_default a ''stat_type'' (PStr ''all'') \<and>
        ((''batting'' \<in> fst ` set perf) = (st = PStr ''batting'' \<or> st = PStr ''all'')) \<and>
        ((''bowling'' \<in> fst ` set perf) = (st = PStr ''bowling'' \<or> st = PStr ''all'')) \<and>
        fst ` set perf \<subseteq> {''batting'', ''bowling''}) \<and>
   (map_of a ''stat_type'' = None \<longrightarrow> dict_get_default a ''stat_type'' (PStr ''all'') = PStr ''all'') \<and>
   (dict_get_default a ''stat_type'' (PStr ''all'') = PStr ''fielding'' \<longrightarrow>
      handle_get_player_performance db (PDict a) =
        Inr (Performance (dict_get a ''player_name'') (dict_get a ''match_id'')
               (PStr ''fielding'') []))"
proof (intro conjI impI allI)
  fix pn mid st perf
  assume run: "handle_get_player_performance db (PDict a) = Inr (Performance pn mid st perf)"
  from run have st: "st = dict_get_default a ''stat_type'' (PStr ''all'')"
    by (auto simp: handle_get_player_performance_def Let_def bind_exn_def split: sum.splits)
  from run have perf:
    "\<exists>bat bowl. perf =
       (if st = PStr ''batting'' \<or> st = PStr ''all'' then [(''batting'', bat)] else []) @
       (if st = PStr ''bowling'' \<or> st = PStr ''all'' then [(''bowling'', bowl)] else [])"
    unfolding handle_get_player_performance_def
    by (auto simp: Let_def py_in_iff bind_exn_def split: sum.splits if_splits)
  from st show "st = dict_get_default a ''stat_type'' (PStr ''all'')" .
  from perf show "(''batting'' \<in> fst ` set perf) = (st = PStr ''batting'' \<or> st = PStr ''all'')"
    by auto
  from perf show "(''bowling'' \<in> fst ` set perf) = (st = PStr ''bowling'' \<or> st = PStr ''all'')"
    by auto
  from perf show "fst ` set perf \<subseteq> {''batting'', ''bowling''}"
    by auto
next
  assume "map_of a ''stat_type'' = None"
  then show "dict_get_default a ''stat_type'' (PStr ''all'') = PStr ''all''"
    by (simp add: dict_get_default_def)
next
  assume "dict_get_default a ''stat_type'' (PStr ''all'') = PStr ''fielding''"
  then show "handle_get_player_performance db (PDict a) =
        Inr (Performance (dict_get a ''player_name'') (dict_get a ''match_id'')
               (PStr ''fielding'') [])"
    by (simp add: handle_get_player_performance_def py_in_def)
qed

theorem performance_blocks_witness:
  "handle_get_player_performance sample_store
      (PDict [(''player_name'', PStr ''Kohli''), (''stat_type'', PStr ''bowling'')]) =
     Inr (Performance (PStr ''Kohli'') PNone (PStr ''bowling'') [(''bowling'', bowling_row [])]) \<and>
   ''batting'' \<notin> fst ` set [(''bowling'', bowling_row [])] \<and>
   dict_get_default [(''player_name'', PStr ''Kohli'')] ''stat_type'' (PStr ''all'') = PStr ''all'' \<and>
   handle_get_player_performance sample_store
      (PDict [(''player_name'', PStr ''Kohli''), (''stat_type'', PStr ''fielding'')]) =
     Inr (Performance (PStr ''Kohli'') PNone (PStr ''fielding'') [])"
proof -
  have run: "handle_get_player_performance sample_store
      (PDict [(''player_name'', PStr ''Kohli''), (''stat_type'', PStr ''bowling'')]) =
     Inr (Performance (PStr ''Kohli'') PNone (PStr ''bowling'') [(''bowling'', bowling_row [])])"
    unfolding handle_get_player_performance_def
    by (simp add: py_in_def execute_query_no_fault sample_bowling_none first_or_empty_def Let_def)
      (simp add: dict_get_def dict_get_default_def)
  show ?thesis
    using run
      performance_blocks [of sample_store
        "[(''player_name'', PStr ''Kohli''), (''stat_type'', PStr ''bowling'')]"]
      performance_blocks [of sample_store "[(''player_name'', PStr ''Kohli'')]"]
      performance_blocks [of sample_store
        "[(''player_name'', PStr ''Kohli''), (''stat_type'', PStr ''fielding'')]"]
    by (simp add: dict_get_def dict_get_default_def)
qed

section \<open>Order and overs of a ball-by-ball result\<close>

text \<open>
  Claim C8. In the result of a \<^verbatim>\<open>get_ball_by_ball\<close> call (with or without an innings
  filter), the deliveries are in ascending order of innings, then over, then ball,
  each of these columns holding an integer or \<^verbatim>\<open>NULL\<close>; \<^verbatim>\<open>overs_covered\<close> is the
  number of distinct (innings, over) pairs among them, and \<^verbatim>\<open>total_deliveries\<close> is
  their number.
\<close>

theorem ball_by_ball_ordered:
  assumes "handle_get_ball_by_ball db (PDict a) = Inr (BallByBall match_info rows n_total oc)"
  shows "sorted (map row_order_key rows) \<and>
         (\<forall>r \<in> set rows. \<forall>k \<in> {''innings'', ''over'', ''ball''}.
            col r k = int_cell (cell_int (col r k))) \<and>
         oc = card (innings_over_of ` set rows) \<and>
         n_total = length rows"
proof -
  from assms have r: "rows = select_deliveries db (fst (ball_by_ball_filters a))
                               (snd (ball_by_ball_filters a)) \<or> rows = []"
    and oc: "overs_covered rows = Inr oc" and n_total: "n_total = length rows"
    using ball_by_ball_result by blast+
  from r have "sorted (map row_order_key rows)"
    by (auto simp: sorted_select_deliveries)
  moreover from r have "\<forall>r \<in> set rows. \<forall>k \<in> {''innings'', ''over'', ''ball''}.
            col r k = int_cell (cell_int (col r k))"
    by (auto simp: select_deliveries_def)
  moreover from r oc have "oc = card (innings_over_of ` set rows)"
    by (auto simp: select_deliveries_def overs_covered_ball_rows)
  ultimately show ?thesis using n_total by simp
qed

text \<open>
  The four deliveries of the example store, stored out of order, come back in order,
  over the three overs (1, 0), (1, 1) and (2, 0).
\<close>

theorem ball_by_ball_ordered_witness:
  "handle_get_ball_by_ball sample_store (PDict [(''match_id'', PStr ''335982'')]) =
     Inr (BallByBall None sample_ordered 4 3) \<and>
   map row_order_key sample_ordered =
     [(Some 1, Some 0, Some 1), (Some 1, Some 0, Some 2), (Some 1, Some 1, Some 1),
      (Some 2, Some 0, Some 1)] \<and>
   sorted (map row_order_key sample_ordered) \<and>
   card (innings_over_of ` set sample_ordered) = 3"
proof -
  have len: "length sample_ordered = 4"
    by (simp add: sample_ordered_def)
  have run: "handle_get_ball_by_ball sample_store (PDict [(''match_id'', PStr ''335982'')]) =
     Inr (BallByBall None sample_ordered 4 3)"
    unfolding handle_get_ball_by_ball_def
    by (simp add: ball_by_ball_filters_def add_filter_def dict_get_def dict_get_default_def
        execute_query_no_fault sample_select sample_overs_covered first_or_none_def len)
  show ?thesis
    using run ball_by_ball_ordered [OF run] by (simp add: sample_order_keys)
qed

section \<open>Determinism of dispatch\<close>



section \<open>Truthiness of the innings filter\<close>

text \<open>
  Claim C10. \<^verbatim>\<open>get_ball_by_ball\<close> adds the innings condition exactly when the innings
  argument is truthy, and the two over conditions exactly when their arguments are not
  \<^verbatim>\<open>None\<close>. So a call with \<^verbatim>\<open>innings\<close> 0 returns what the call without \<^verbatim>\<open>innings\<close>
  returns, while a call with \<^verbatim>\<open>over_start\<close> 0 binds 0 to the condition
  \<^verbatim>\<open>d.over >= ?\<close>, which every returned delivery then satisfies.
\<close>

theorem innings_truthy_over_not_none:
  "(dict_get a ''innings'' = PInt 0 \<and> map_of b ''innings'' = None \<and>
    dict_get b ''match_id'' = dict_get a ''match_id'' \<and>
    dict_get b ''over_start'' = dict_get a ''over_start'' \<and>
    dict_get b ''over_end'' = dict_get a ''over_end'' \<longrightarrow>
      handle_get_ball_by_ball db (PDict a) = handle_get_ball_by_ball db (PDict b)) \<and>
   ((''d.innings = ?'' \<in> set (fst (ball_by_ball_filters a))) = truthy (dict_get a ''innings'')) \<and>
   ((''d.over >= ?'' \<in> set (fst (ball_by_ball_filters a))) = (dict_get a ''over_start'' \<noteq> PNone)) \<and>
   ((''d.over <= ?'' \<in> set (fst (ball_by_ball_filters a))) = (dict_get a ''over_end'' \<noteq> PNone)) \<and>
   (dict_get a ''over_start'' = PInt 0 \<longrightarrow>
      (''d.over >= ?'', Plain (PInt 0)) \<in>
         set (zip (fst (ball_by_ball_filters a)) (snd (ball_by_ball_filters a))) \<and>
      (\<forall>match_info rows n_total oc.
         handle_get_ball_by_ball db (PDict a) = Inr (BallByBall match_info rows n_total oc) \<longrightarrow>
         (\<forall>r \<in> set rows. \<exists>d m. r = ball_row (d, m) \<and>
                                sat db ''d.over >= ?'' (Plain (PInt 0)) d)))"
proof (intro conjI impI allI ballI)
  assume "dict_get a ''innings'' = PInt 0 \<and> map_of b ''innings'' = None \<and>
    dict_get b ''match_id'' = dict_get a ''match_id'' \<and>
    dict_get b ''over_start'' = dict_get a ''over_start'' \<and>
    dict_get b ''over_end'' = dict_get a ''over_end''"
  then show "handle_get_ball_by_ball db (PDict a) = handle_get_ball_by_ball db (PDict b)"
    by (simp add: innings_zero_as_absent)
next
  show "(''d.innings = ?'' \<in> set (fst (ball_by_ball_filters a))) = truthy (dict_get a ''innings'')"
    by (rule filters_conditions)
next
  show "(''d.over >= ?'' \<in> set (fst (ball_by_ball_filters a))) = (dict_get a ''over_start'' \<noteq> PNone)"
    by (rule filters_conditions)
next
  show "(''d.over <= ?'' \<in> set (fst (ball_by_ball_filters a))) = (dict_get a ''over_end'' \<noteq> PNone)"
    by (rule filters_conditions)
next
  assume "dict_get a ''over_start'' = PInt 0"
  then show "(''d.over >= ?'', Plain (PInt 0)) \<in>
         set (zip (fst (ball_by_ball_filters a)) (snd (ball_by_ball_filters a)))"
    using over_start_bound [of a] by simp
next
  fix match_info rows n_total oc r
  assume zero: "dict_get a ''over_start'' = PInt 0"
    and run: "handle_get_ball_by_ball db (PDict a) = Inr (BallByBall match_info rows n_total oc)"
    and r: "r \<in> set rows"
  from run r have "r \<in> set (select_deliveries db (fst (ball_by_ball_filters a))
                              (snd (ball_by_ball_filters a)))"
    using ball_by_ball_result by fastforce
  moreover from zero have "(''d.over >= ?'', Plain (PInt 0)) \<in>
         set (zip (fst (ball_by_ball_filters a)) (snd (ball_by_ball_filters a)))"
    using over_start_bound [of a] by simp
  ultimately show "\<exists>d m. r = ball_row (d, m) \<and> sat db ''d.over >= ?'' (Plain (PInt 0)) d"
    using select_deliveries_sat by blast
qed

theorem innings_truthy_over_not_none_witness:
  "handle_get_ball_by_ball sample_store
     (PDict [(''match_id'', PStr ''335982''), (''innings'', PInt 0), (''over_start'', PInt 0)]) =
   handle_get_ball_by_ball sample_store
     (PDict [(''match_id'', PStr ''335982''), (''over_start'', PInt 0)]) \<and>
   handle_get_ball_by_ball sample_store
     (PDict [(''match_id'', PStr ''335982''), (''innings'', PInt 0), (''over_start'', PInt 0)]) =
     Inr (BallByBall None sample_ordered 4 3) \<and>
   ball_by_ball_filters
     [(''match_id'', PStr ''335982''), (''innings'', PInt 0), (''over_start'', PInt 0)] =
     ([''d.match_id = ?'', ''d.over >= ?''], [Plain (PStr ''335982''), Plain (PInt 0)])"
proof -
  have len: "length sample_ordered = 4"
    by (simp add: sample_ordered_def)
  have f: "ball_by_ball_filters
     [(''match_id'', PStr ''335982''), (''innings'', PInt 0), (''over_start'', PInt 0)] =
     ([''d.match_id = ?'', ''d.over >= ?''], [Plain (PStr ''335982''), Plain (PInt 0)])"
    by (simp add: ball_by_ball_filters_unfold add_filter_def dict_get_def dict_get_default_def)
  have run: "handle_get_ball_by_ball sample_store
     (PDict [(''match_id'', PStr ''335982''), (''innings'', PInt 0), (''over_start'', PInt 0)]) =
     Inr (BallByBall None sample_ordered 4 3)"
    unfolding handle_get_ball_by_ball_def
    by (simp add: f execute_query_no_fault sample_select_from_over_0 sample_overs_covered
        first_or_none_def len)
  show ?thesis
    using f run innings_truthy_over_not_none [of
        "[(''match_id'', PStr ''335982''), (''innings'', PInt 0), (''over_start'', PInt 0)]"
        "[(''match_id'', PStr ''335982''), (''over_start'', PInt 0)]" sample_store]
    by (simp add: dict_get_def dict_get_default_def)
qed

end
